theory Spec2Isabelle
  imports Complex_Main "HOL-Library.Sublist"
begin

section \<open>JavaScript strings\<close>

text \<open>
  A JavaScript string is a sequence of UTF-16 code units, and \<open>length\<close>, \<open>includes\<close>,
  \<open>trim\<close> and \<open>toLowerCase\<close> work on code units. The model writes a string as a HOL
  \<open>string\<close>, one \<open>char\<close> per code unit, so it covers the texts whose code units lie in
  U+0000 .. U+00FF (ASCII and Latin-1). On that range the three built-ins below are
  the ones of ECMAScript.
\<close>

definition toLowerUnit :: "char \<Rightarrow> char" where
  \<comment> \<open>Unicode default lower-casing on U+0000 .. U+00FF: A-Z, and U+00C0 .. U+00DE
      without the multiplication sign U+00D7, move up by 32.\<close>
  "toLowerUnit c =
     (let n = (of_char c :: nat)
      in if (65 \<le> n \<and> n \<le> 90) \<or> (192 \<le> n \<and> n \<le> 222 \<and> n \<noteq> 215)
         then char_of (n + 32) else c)"

definition toLowerCase :: "string \<Rightarrow> string" where
  "toLowerCase s = map toLowerUnit s"

fun includes_js :: "string \<Rightarrow> string \<Rightarrow> bool" where
  \<comment> \<open>\<open>s.includes(k)\<close>: \<open>k\<close> starts at some position of \<open>s\<close>.\<close>
  "includes_js [] k = (k = [])"
| "includes_js (c # s) k = (prefix k (c # s) \<or> includes_js s k)"

definition isWhiteSpace :: "char \<Rightarrow> bool" where
  \<comment> \<open>WhiteSpace and LineTerminator of ECMAScript below U+0100:
      TAB, LF, VT, FF, CR, SP and NBSP.\<close>
  "isWhiteSpace c = ((of_char c :: nat) \<in> {9, 10, 11, 12, 13, 32, 160})"

definition trim :: "string \<Rightarrow> string" where
  "trim s = rev (dropWhile isWhiteSpace (rev (dropWhile isWhiteSpace s)))"

section \<open>Model router\<close>

text \<open>
  \<open>determineOptimalModel\<close> of \<open>App.tsx\<close> and of the chat component (the two copies are
  the same). \<open>selectedModel\<close> is the component state the callback closes over.
\<close>

definition determineOptimalModel :: "string \<Rightarrow> string \<Rightarrow> string" where
  "determineOptimalModel selectedModel prompt =
     (if selectedModel \<noteq> ''auto'' then selectedModel
      else
        let lowerPrompt = toLowerCase prompt
        in if includes_js lowerPrompt ''code'' \<or> includes_js lowerPrompt ''programming'' \<or>
              includes_js lowerPrompt ''function'' \<or> includes_js lowerPrompt ''debug''
           then ''gpt-4o''
           else if includes_js lowerPrompt ''write'' \<or> includes_js lowerPrompt ''story'' \<or>
                   includes_js lowerPrompt ''creative'' \<or> includes_js lowerPrompt ''poem''
           then ''claude-3-5-sonnet-20241022''
           else if includes_js lowerPrompt ''analyze'' \<or> includes_js lowerPrompt ''explain'' \<or>
                   includes_js lowerPrompt ''compare'' \<or> includes_js lowerPrompt ''why''
           then ''gpt-4o''
           else ''gpt-4o-mini'')"

subsection \<open>The routing rule as the specification words it\<close>

text \<open>
  The specification gives a precedence table: keyword groups in a fixed order, each with
  its model, the first group with a keyword occurring in the lower-cased utterance
  wins, and a default when none does. This second definition follows those words; it is
  compared with the code's function below.
\<close>

definition routingTable :: "(string list \<times> string) list" where
  "routingTable =
     [([''code'', ''programming'', ''function'', ''debug''], ''gpt-4o''),
      ([''write'', ''story'', ''creative'', ''poem''], ''claude-3-5-sonnet-20241022''),
      ([''analyze'', ''explain'', ''compare'', ''why''], ''gpt-4o'')]"

definition mentions :: "string \<Rightarrow> string list \<Rightarrow> bool" where
  "mentions utterance keywords = list_ex (\<lambda>k. sublist k (toLowerCase utterance)) keywords"

fun firstMatch :: "(string list \<times> string) list \<Rightarrow> string \<Rightarrow> string" where
  "firstMatch [] utterance = ''gpt-4o-mini''"
| "firstMatch ((keywords, m) # table) utterance =
     (if mentions utterance keywords then m else firstMatch table utterance)"

section \<open>Messages, voice state and collaborators\<close>

datatype role = User | Assistant

record message =
  msg_id :: int  \<comment> \<open>\<open>id\<close>: the decimal string of an integer clock reading; the model keeps the integer\<close>
  msg_type :: role  \<comment> \<open>\<open>type\<close>\<close>
  content :: string
  model :: "string option"
  timestamp :: int
  audioUrl :: "string option"
  isStreaming :: "bool option"

text \<open>
  \<open>VoiceState\<close>. The field \<open>conversationMode\<close> is one of three strings in \<open>App.tsx\<close>
  and a boolean in the chat component; the functions modelled here never read it, so
  its type is a parameter.
\<close>

datatype conversationMode = Manual | Continuous | PushToTalk

record 'm VoiceState =
  isRecording :: bool
  isProcessing :: bool
  isPlaying :: bool
  audioLevel :: real
  isListening :: bool
  conversationMode :: 'm

type_synonym blob = "nat list"  \<comment> \<open>the bytes of a \<open>Blob\<close>; its \<open>size\<close> is the length\<close>

text \<open>
  The two copies of the orchestrator: \<open>App\<close> of \<open>App.tsx\<close> and the chat component
  \<open>ChatInterface\<close>. Where they differ the model branches on the variant.
\<close>

datatype variant = AppTsx | ChatInterface

text \<open>
  Calls that leave the component, in the order they are made: the three services of the
  SDK client, audio playback, the \<open>onConversationComplete\<close> property, the microphone
  request and \<open>alert\<close>. The log is how "never calls the transcription service" is said.
\<close>

datatype call =
    TranscribeAudio blob string string
  | StreamText "(role \<times> string) list" string nat
  | GenerateSpeech string string
  | PlayAudio string
  | OnConversationComplete
  | GetUserMedia
  | Alert string

datatype 'a outcome = Throws | Resolves 'a

datatype playback = Ended | Errored | PlayRejected | Paused
  \<comment> \<open>\<open>Paused\<close>: the audio element is paused by \<open>stopAudio\<close> (or by a replay) before it
      ends; none of the three handlers that resolve the promise of \<open>playAudio\<close> runs.\<close>

datatype media = Stream | NotAllowedError | OtherError

text \<open>
  What a run of a callback reads from outside the component state: the values its
  closure captured at the render that created it (\<open>user\<close>, \<open>messages\<close>,
  \<open>selectedModel\<close>, \<open>hasStartedConversation\<close>, the two count properties), the clock
  (\<open>dateNow k\<close> is the value of the \<open>k\<close>-th clock reading of the run), and the answers of
  the collaborators.
\<close>

record env =
  user :: bool
  closureMessages :: "message list"
  selectedModel :: string
  closureHasStartedConversation :: bool
  conversationCountProp :: int
  maxFreeConversations :: int
  dateNow :: "nat \<Rightarrow> int"
  transcribeAudio :: "blob \<Rightarrow> string option outcome"
  streamText :: "(role \<times> string) list \<Rightarrow> string \<Rightarrow> string list \<times> bool"
  generateSpeech :: "string \<Rightarrow> string outcome"
  playback :: "string \<Rightarrow> playback"
  getUserMedia :: media

text \<open>
  \<open>transcribeAudio\<close> resolves to a result whose \<open>text\<close> field may be missing
  (\<open>None\<close>). \<open>streamText\<close> hands the chunks of its first component to the callback, in
  order, and then throws when the second component is true.
\<close>

record 'm state =
  messages :: "message list"
  voiceState :: "'m VoiceState"
  showTextFallback :: bool
  textInput :: string
  hasStartedConversation :: bool  \<comment> \<open>chat component only\<close>
  conversationCount :: int  \<comment> \<open>state of \<open>App\<close>; the chat component gets it as a property\<close>
  showChat :: bool  \<comment> \<open>\<open>App\<close> only\<close>
  audioChunksRef :: "blob list"
  currentAudioRef :: "string option"
  continuousStreamRef :: bool  \<comment> \<open>whether a stream is held\<close>
  calls :: "call list"

datatype completion = Returned | Suspended
  \<comment> \<open>\<open>Suspended\<close>: the callback waits for a promise that is never resolved\<close>

section \<open>State updates\<close>

definition setIsProcessing :: "bool \<Rightarrow> 'm state \<Rightarrow> 'm state" where
  "setIsProcessing b s = s\<lparr>voiceState := (voiceState s)\<lparr>isProcessing := b\<rparr>\<rparr>"

definition setIsPlaying :: "bool \<Rightarrow> 'm state \<Rightarrow> 'm state" where
  "setIsPlaying b s = s\<lparr>voiceState := (voiceState s)\<lparr>isPlaying := b\<rparr>\<rparr>"

definition appendMessage :: "message \<Rightarrow> 'm state \<Rightarrow> 'm state" where
  \<comment> \<open>\<open>setMessages(prev => [...prev, m])\<close>\<close>
  "appendMessage m s = s\<lparr>messages := messages s @ [m]\<rparr>"

definition updateMessage :: "int \<Rightarrow> (message \<Rightarrow> message) \<Rightarrow> 'm state \<Rightarrow> 'm state" where
  \<comment> \<open>\<open>setMessages(prev => prev.map(msg => msg.id === i ? f(msg) : msg))\<close>\<close>
  "updateMessage i f s =
     s\<lparr>messages := map (\<lambda>msg. if msg_id msg = i then f msg else msg) (messages s)\<rparr>"

definition invoke :: "call \<Rightarrow> 'm state \<Rightarrow> 'm state" where
  "invoke c s = s\<lparr>calls := calls s @ [c]\<rparr>"

section \<open>The fixed texts\<close>

definition bullet :: string where
  \<comment> \<open>U+2022, outside the code units of the model, written as its three UTF-8 bytes;
      no function reads the fixed texts\<close>
  "bullet = [CHR 0xE2, CHR 0x80, CHR 0xA2]"

definition transcriptionFailedText :: "variant \<Rightarrow> string" where
  "transcriptionFailedText v =
     (case v of
        AppTsx \<Rightarrow>
          ''I'' @ [CHR 0x27] @ ''m having trouble processing your audio right now. This could be due to:'' @
          [CHR 10, CHR 10] @ bullet @ '' Network connectivity issues'' @
          [CHR 10] @ bullet @ '' Audio format compatibility'' @
          [CHR 10] @ bullet @ '' Server overload'' @
          [CHR 10, CHR 10] @ ''Please try again in a moment, or use the text input option below.''
      | ChatInterface \<Rightarrow>
          ''Sorry, I had trouble understanding your audio. Please try the text input below.'')"

definition notHeardText :: "variant \<Rightarrow> string" where
  "notHeardText v =
     (case v of
        AppTsx \<Rightarrow>
          ''I couldn'' @ [CHR 0x27] @ ''t hear you clearly. Please try:'' @
          [CHR 10, CHR 10] @ bullet @ '' Speaking louder and more clearly'' @
          [CHR 10] @ bullet @ '' Getting closer to your microphone'' @
          [CHR 10] @ bullet @ '' Reducing background noise'' @
          [CHR 10] @ bullet @ '' Speaking for at least 1-2 seconds'' @
          [CHR 10, CHR 10] @ ''Or use the text input option below.''
      | ChatInterface \<Rightarrow>
          ''I couldn'' @ [CHR 0x27] @
          ''t hear you clearly. Please try speaking again or use the text input below.'')"

definition apologyText :: string where
  "apologyText = ''Sorry, I encountered an error processing your request. Please try again.''"

definition errorMessage :: "env \<Rightarrow> string \<Rightarrow> message" where
  \<comment> \<open>the object literal \<open>errorMessage\<close> of both fallback branches\<close>
  "errorMessage e txt =
     \<lparr>msg_id = dateNow e 0, msg_type = Assistant, content = txt, model = None,
      timestamp = dateNow e 1, audioUrl = None, isStreaming = None\<rparr>"

definition minBlobSize :: "variant \<Rightarrow> nat" where
  "minBlobSize v = (case v of AppTsx \<Rightarrow> 100 | ChatInterface \<Rightarrow> 500)"

section \<open>Playback and speech synthesis\<close>

definition playAudio :: "env \<Rightarrow> string \<Rightarrow> 'm state \<Rightarrow> completion \<times> 'm state" where
  \<comment> \<open>Whichever way the playback goes, the playing flag is false and the audio
      reference is null afterwards; the promise resolves unless the element was paused.\<close>
  "playAudio e url s =
     (let s1 = setIsPlaying False ((invoke (PlayAudio url) s)\<lparr>currentAudioRef := None\<rparr>)
      in (if playback e url = Paused then Suspended else Returned, s1))"

definition speak :: "env \<Rightarrow> int \<Rightarrow> string \<Rightarrow> 'm state \<Rightarrow> completion \<times> 'm state" where
  \<comment> \<open>the block \<open>try { generateSpeech; set audioUrl; await playAudio } catch { log }\<close>\<close>
  "speak e aid responseText s =
     (let s1 = invoke (GenerateSpeech responseText ''nova'') s
      in case generateSpeech e responseText of
           Throws \<Rightarrow> (Returned, s1)
         | Resolves url \<Rightarrow>
             playAudio e url (updateMessage aid (\<lambda>msg. msg\<lparr>audioUrl := Some url\<rparr>) s1))"

section \<open>One turn: user message, routing, streamed generation\<close>

definition onChunk :: "int \<Rightarrow> string \<times> 'm state \<Rightarrow> string \<Rightarrow> string \<times> 'm state" where
  \<comment> \<open>the callback given to \<open>streamText\<close>; the pair is \<open>responseText\<close> and the state\<close>
  "onChunk aid acc chunk =
     (let responseText = fst acc @ chunk
      in (responseText, updateMessage aid (\<lambda>msg. msg\<lparr>content := responseText\<rparr>) (snd acc)))"

definition conversationHistory :: "env \<Rightarrow> string \<Rightarrow> (role \<times> string) list" where
  \<comment> \<open>\<open>messages.slice(-6).map(...)\<close> on the captured log, then the pushed user turn\<close>
  "conversationHistory e text =
     map (\<lambda>msg. (if msg_type msg = User then User else Assistant, content msg))
         (drop (length (closureMessages e) - 6) (closureMessages e)) @ [(User, text)]"

definition requestedModel :: "env \<Rightarrow> string \<Rightarrow> string" where
  \<comment> \<open>\<open>model === 'auto' ? 'gpt-4o-mini' : model\<close>\<close>
  "requestedModel e text =
     (let chosen = determineOptimalModel (selectedModel e) text
      in if chosen = ''auto'' then ''gpt-4o-mini'' else chosen)"

definition userMessage :: "env \<Rightarrow> string \<Rightarrow> message" where
  "userMessage e text =
     \<lparr>msg_id = dateNow e 0, msg_type = User, content = text, model = None,
      timestamp = dateNow e 1, audioUrl = None, isStreaming = None\<rparr>"

definition assistantMessage :: "env \<Rightarrow> string \<Rightarrow> message" where
  "assistantMessage e text =
     \<lparr>msg_id = dateNow e 2 + 1, msg_type = Assistant, content = [],
      model = Some (determineOptimalModel (selectedModel e) text),
      timestamp = dateNow e 3, audioUrl = None, isStreaming = Some True\<rparr>"

definition beginTurn :: "variant \<Rightarrow> env \<Rightarrow> string \<Rightarrow> 'm state \<Rightarrow> string \<times> bool \<times> 'm state" where
  \<comment> \<open>The statements that \<open>processRecording\<close> and \<open>handleTextSubmit\<close> share, from
      "Add user message" to the return or throw of \<open>streamText\<close>. The result is
      \<open>responseText\<close>, whether \<open>streamText\<close> threw, and the state.\<close>
  "beginTurn v e text s =
     (let s1 = (if v = ChatInterface \<and> \<not> closureHasStartedConversation e
                then s\<lparr>hasStartedConversation := True\<rparr> else s);
          s2 = appendMessage (userMessage e text) s1;
          s3 = appendMessage (assistantMessage e text) s2;
          s4 = invoke (StreamText (conversationHistory e text) (requestedModel e text) 300) s3;
          answer = streamText e (conversationHistory e text) (requestedModel e text);
          streamed = foldl (onChunk (msg_id (assistantMessage e text))) ([], s4) (fst answer)
      in (fst streamed, snd answer, snd streamed))"

definition markComplete :: "env \<Rightarrow> string \<Rightarrow> 'm state \<Rightarrow> 'm state" where
  \<comment> \<open>"Mark streaming as complete"\<close>
  "markComplete e text s =
     updateMessage (msg_id (assistantMessage e text)) (\<lambda>msg. msg\<lparr>isStreaming := Some False\<rparr>) s"

section \<open>processRecording\<close>

definition finallyClear :: "completion \<times> 'm state \<Rightarrow> completion \<times> 'm state" where
  \<comment> \<open>the \<open>finally\<close> block: runs when the body returns, not while it is suspended\<close>
  "finallyClear r = (if fst r = Returned then (Returned, setIsProcessing False (snd r)) else r)"

definition transcriptText :: "string option \<Rightarrow> string" where
  \<comment> \<open>\<open>result.text?.trim() || ''\<close>\<close>
  "transcriptText r = (case r of None \<Rightarrow> [] | Some t \<Rightarrow> trim t)"

definition transcribe :: "variant \<Rightarrow> env \<Rightarrow> blob \<Rightarrow> 'm state \<Rightarrow> string option \<times> 'm state" where
  \<comment> \<open>The body of the inner \<open>try\<close>; \<open>None\<close> when it throws. \<open>App.tsx\<close> throws on an
      empty buffer before calling the service.\<close>
  "transcribe v e audioBlob s =
     (if v = AppTsx \<and> length audioBlob = 0 then (None, s)
      else
        let s1 = invoke (TranscribeAudio audioBlob ''en'' ''whisper-1'') s
        in case transcribeAudio e audioBlob of
             Throws \<Rightarrow> (None, s1)
           | Resolves result \<Rightarrow> (Some (transcriptText result), s1))"

definition fallback :: "env \<Rightarrow> string \<Rightarrow> 'm state \<Rightarrow> completion \<times> 'm state" where
  \<comment> \<open>Both fallback branches: the message is appended, the text fallback is shown, the
      processing flag is cleared, and the function returns.\<close>
  "fallback e txt s =
     (Returned,
      setIsProcessing False ((appendMessage (errorMessage e txt) s)\<lparr>showTextFallback := True\<rparr>))"

definition respond :: "variant \<Rightarrow> env \<Rightarrow> string \<Rightarrow> 'm state \<Rightarrow> completion \<times> 'm state" where
  \<comment> \<open>\<open>processRecording\<close> from "Add user message" to the end of the outer \<open>try\<close>\<close>
  "respond v e text s =
     (let turn = beginTurn v e text s;
          s1 = snd (snd turn);
          aid = msg_id (assistantMessage e text);
          responseText = (if fst (snd turn) then apologyText else fst turn);
          s2 = (if fst (snd turn)
                then updateMessage aid (\<lambda>msg. msg\<lparr>content := apologyText\<rparr>) s1 else s1);
          spoken = speak e aid responseText (markComplete e text s2)
      in if fst spoken = Suspended then spoken
         else if v = ChatInterface then (Returned, invoke OnConversationComplete (snd spoken))
         else spoken)"

definition processRecordingBody :: "variant \<Rightarrow> env \<Rightarrow> 'm state \<Rightarrow> completion \<times> 'm state" where
  \<comment> \<open>the outer \<open>try\<close> block\<close>
  "processRecordingBody v e s =
     (let audioBlob = concat (audioChunksRef s)
      in if length audioBlob < minBlobSize v then (Returned, setIsProcessing False s)
         else if v = AppTsx \<and> length audioBlob = 0 then (Returned, setIsProcessing False s)
         else if v = AppTsx \<and> \<not> user e then (Returned, setIsProcessing False s)
         else
           case transcribe v e audioBlob s of
             (None, s1) \<Rightarrow> fallback e (transcriptionFailedText v) s1
           | (Some text, s1) \<Rightarrow>
               if text = [] \<or> length text < 2 then fallback e (notHeardText v) s1
               else respond v e text s1)"

definition processRecording :: "variant \<Rightarrow> env \<Rightarrow> 'm state \<Rightarrow> completion \<times> 'm state" where
  "processRecording v e s =
     (if length (audioChunksRef s) = 0 then (Returned, s)
      else finallyClear (processRecordingBody v e (setIsProcessing True s)))"

section \<open>Manual text entry\<close>

definition hasReachedLimit :: "env \<Rightarrow> bool" where
  "hasReachedLimit e = (conversationCountProp e \<ge> maxFreeConversations e)"

definition handleTextSubmitBody :: "variant \<Rightarrow> env \<Rightarrow> string \<Rightarrow> 'm state \<Rightarrow> completion \<times> 'm state" where
  \<comment> \<open>The \<open>try\<close> block. \<open>streamText\<close> has no handler of its own here: when it throws
      the outer \<open>catch\<close> logs the error and the rest of the block is skipped.\<close>
  "handleTextSubmitBody v e text s =
     (let turn = beginTurn v e text s;
          s1 = snd (snd turn)
      in if fst (snd turn) then (Returned, s1)
         else
           let spoken = speak e (msg_id (assistantMessage e text)) (fst turn) (markComplete e text s1);
               s2 = (snd spoken)\<lparr>textInput := [], showTextFallback := False\<rparr>
           in if fst spoken = Suspended then spoken
              else (Returned,
                    case v of
                      AppTsx \<Rightarrow> s2\<lparr>conversationCount := conversationCount s2 + 1\<rparr>
                    | ChatInterface \<Rightarrow> invoke OnConversationComplete s2))"

definition handleTextSubmit :: "variant \<Rightarrow> env \<Rightarrow> string \<Rightarrow> 'm state \<Rightarrow> completion \<times> 'm state" where
  "handleTextSubmit v e text s =
     (if trim text = [] \<or> (case v of AppTsx \<Rightarrow> \<not> user e | ChatInterface \<Rightarrow> hasReachedLimit e)
      then (Returned, s)
      else finallyClear (handleTextSubmitBody v e text (setIsProcessing True s)))"

section \<open>Entry points that check the conversation count\<close>

definition startContinuousListening :: "env \<Rightarrow> 'm state \<Rightarrow> 'm state" where
  \<comment> \<open>The chat component's. On success the stream is kept, the listening flag is set and
      the voice-activity monitor of the section below is started.\<close>
  "startContinuousListening e s =
     (if hasReachedLimit e then s
      else
        let s1 = invoke GetUserMedia s
        in case getUserMedia e of
             Stream \<Rightarrow> s1\<lparr>continuousStreamRef := True,
                           voiceState := (voiceState s1)\<lparr>isListening := True\<rparr>\<rparr>
           | NotAllowedError \<Rightarrow>
               invoke (Alert ''Microphone access denied. Please allow microphone access and try again.'') s1
           | OtherError \<Rightarrow> s1)"

definition handleStartChat :: "'m state \<Rightarrow> 'm state" where
  \<comment> \<open>\<open>App.tsx\<close>: the limit of 8 is written into the function\<close>
  "handleStartChat s =
     (if conversationCount s \<ge> 8 then s
      else s\<lparr>showChat := True, conversationCount := conversationCount s + 1\<rparr>)"

section \<open>Voice-activity monitor\<close>

text \<open>
  \<open>monitorVoiceActivity\<close>, the closure that \<open>setupContinuousVoiceDetection\<close> runs once
  per animation frame, with the recorder it starts and stops. The two components have
  the same code. A tick carries what one run of the closure reads from outside: the
  clock, the energy \<open>rms\<close> computed from the analyser, and, for the case that it calls
  \<open>startAutomaticRecording\<close>, the three operands of that function's guard (the two
  flags are those of the \<open>voiceState\<close> captured by the callback), how the
  \<open>MediaRecorder\<close> behaves, and the clock reading taken inside the function.
  The monitor also copies \<open>rms\<close> into \<open>voiceState.audioLevel\<close>, and starting and
  stopping set \<open>voiceState.isRecording\<close>; the monitor reads neither, and they are left
  out. A listening session is one run of \<open>setupContinuousVoiceDetection\<close>: one closure
  with its three locals, from \<open>initialVad\<close>.
\<close>

definition SPEECH_THRESHOLD :: real where "SPEECH_THRESHOLD = 15"
definition SPEECH_START_DURATION :: int where "SPEECH_START_DURATION = 200"
definition SPEECH_END_DURATION :: int where "SPEECH_END_DURATION = 1200"
definition MIN_RECORDING_TIME :: int where "MIN_RECORDING_TIME = 600"

datatype recorder = Starts | ConstructorThrows | StartThrows

record tick =
  now :: int
  rms :: real
  guardIsRecording :: bool
  guardIsProcessing :: bool
  streamHeld :: bool
  recorder :: recorder
  startNow :: int

record vad =
  speechStartTime :: int  \<comment> \<open>local of the closure\<close>
  lastSpeechTime :: int  \<comment> \<open>local of the closure\<close>
  isCurrentlyRecording :: bool  \<comment> \<open>local of the closure\<close>
  voiceDetectionRef :: bool
  speechStartTimeRef :: int
  recorderActive :: bool  \<comment> \<open>\<open>mediaRecorderRef.current\<close> is set and not inactive\<close>

datatype action = StartAutomaticRecording | StopRecording

definition initialVad :: vad where
  "initialVad =
     \<lparr>speechStartTime = 0, lastSpeechTime = 0, isCurrentlyRecording = False,
      voiceDetectionRef = False, speechStartTimeRef = 0, recorderActive = False\<rparr>"

definition startAutomaticRecording :: "tick \<Rightarrow> vad \<Rightarrow> vad" where
  \<comment> \<open>The function has no \<open>await\<close>: it runs to its end inside the tick. An exception
      is caught and logged; the constructor throws before the references are
      assigned, \<open>start()\<close> after.\<close>
  "startAutomaticRecording t s =
     (if guardIsRecording t \<or> guardIsProcessing t \<or> \<not> streamHeld t then s
      else
        case recorder t of
          ConstructorThrows \<Rightarrow> s
        | StartThrows \<Rightarrow> s\<lparr>speechStartTimeRef := startNow t, recorderActive := False\<rparr>
        | Starts \<Rightarrow> s\<lparr>speechStartTimeRef := startNow t, recorderActive := True\<rparr>)"

definition stopRecording :: "vad \<Rightarrow> vad" where
  \<comment> \<open>stopping the recorder is what runs \<open>processRecording\<close> (its \<open>onstop\<close> handler)\<close>
  "stopRecording s = (if recorderActive s then s\<lparr>recorderActive := False\<rparr> else s)"

definition monitorVoiceActivity :: "vad \<Rightarrow> tick \<Rightarrow> vad \<times> action option" where
  "monitorVoiceActivity s t =
     (if rms t > SPEECH_THRESHOLD then
        let s1 = (if \<not> voiceDetectionRef s
                  then s\<lparr>speechStartTime := now t, voiceDetectionRef := True\<rparr> else s);
            s2 = s1\<lparr>lastSpeechTime := now t\<rparr>
        in if \<not> isCurrentlyRecording s2 \<and> now t - speechStartTime s2 > SPEECH_START_DURATION
           then (startAutomaticRecording t (s2\<lparr>isCurrentlyRecording := True\<rparr>),
                 Some StartAutomaticRecording)
           else (s2, None)
      else if voiceDetectionRef s \<and> isCurrentlyRecording s then
        let silenceDuration = now t - lastSpeechTime s;
            recordingDuration = now t - speechStartTimeRef s
        in if silenceDuration > SPEECH_END_DURATION \<and> recordingDuration > MIN_RECORDING_TIME
           then ((stopRecording (s\<lparr>isCurrentlyRecording := False\<rparr>))\<lparr>voiceDetectionRef := False\<rparr>,
                 Some StopRecording)
           else (s, None)
      else if \<not> isCurrentlyRecording s then (s\<lparr>voiceDetectionRef := False\<rparr>, None)
      else (s, None))"

text \<open>
  What happens during a listening session: a tick of the monitor, or the 15 second
  timer of a recording, which calls \<open>stopRecording\<close> itself.
\<close>

datatype event = Tick tick | MaxRecordingTimeout

fun step :: "vad \<Rightarrow> event \<Rightarrow> vad \<times> action option" where
  "step s (Tick t) = monitorVoiceActivity s t"
| "step s MaxRecordingTimeout = (stopRecording s, None)"

definition run :: "vad \<Rightarrow> event list \<Rightarrow> vad" where
  "run s es = foldl (\<lambda>s e. fst (step s e)) s es"

fun actions :: "vad \<Rightarrow> event list \<Rightarrow> action list" where
  \<comment> \<open>the calls the monitor makes during a run, in order\<close>
  "actions s [] = []"
| "actions s (e # es) =
     (case snd (step s e) of None \<Rightarrow> [] | Some a \<Rightarrow> [a]) @ actions (fst (step s e)) es"

subsection \<open>What a sequence of events says, without the monitor's variables\<close>

fun lastSpeechStep :: "int option \<Rightarrow> event \<Rightarrow> int option" where
  "lastSpeechStep r (Tick t) = (if rms t > SPEECH_THRESHOLD then Some (now t) else r)"
| "lastSpeechStep r MaxRecordingTimeout = r"

definition lastSpeechAt :: "event list \<Rightarrow> int option" where
  \<comment> \<open>the time of the most recent tick above the threshold; every later tick is silent\<close>
  "lastSpeechAt es = foldl lastSpeechStep None es"

fun episodeStep :: "int option \<Rightarrow> event \<Rightarrow> int option" where
  "episodeStep r (Tick t) =
     (if rms t > SPEECH_THRESHOLD
      then (case r of None \<Rightarrow> Some (now t) | Some \<tau> \<Rightarrow> Some \<tau>) else None)"
| "episodeStep r MaxRecordingTimeout = r"

definition episodeStart :: "event list \<Rightarrow> int option" where
  \<comment> \<open>When the sequence ends in a run of ticks that are all above the threshold: the
      time of the first tick of that run. \<open>None\<close> when the last tick was silent.\<close>
  "episodeStart es = foldl episodeStep None es"

definition recorderStarts :: "tick \<Rightarrow> bool" where
  "recorderStarts t =
     (\<not> guardIsRecording t \<and> \<not> guardIsProcessing t \<and> streamHeld t \<and> recorder t = Starts)"

fun recordingStep :: "vad \<times> int option \<Rightarrow> event \<Rightarrow> vad \<times> int option" where
  "recordingStep (s, r) (Tick t) =
     (fst (monitorVoiceActivity s t),
      case snd (monitorVoiceActivity s t) of
        None \<Rightarrow> r
      | Some StartAutomaticRecording \<Rightarrow> (if recorderStarts t then Some (startNow t) else r)
      | Some StopRecording \<Rightarrow> None)"
| "recordingStep (s, r) MaxRecordingTimeout = (stopRecording s, None)"

definition recordingSince :: "event list \<Rightarrow> int option" where
  \<comment> \<open>The clock reading at which the recording now in progress was started: set when
      a call of \<open>startAutomaticRecording\<close> gets a recorder going, cleared by a stop of
      the monitor and by the timer.\<close>
  "recordingSince es = snd (foldl recordingStep (initialVad, None) es)"

fun startsAlternate :: "bool \<Rightarrow> action list \<Rightarrow> bool" where
  \<comment> \<open>starts and stops take turns; the flag says whether a start is the last call so far\<close>
  "startsAlternate started [] = True"
| "startsAlternate started (StartAutomaticRecording # as) = (\<not> started \<and> startsAlternate True as)"
| "startsAlternate started (StopRecording # as) = (started \<and> startsAlternate False as)"

section \<open>Sample inputs\<close>

text \<open>Concrete collaborators, states and ticks on which the functions are run below.\<close>

definition sampleEnv :: env where
  "sampleEnv =
     \<lparr>user = True, closureMessages = [], selectedModel = ''auto'',
      closureHasStartedConversation = False, conversationCountProp = 0,
      maxFreeConversations = 8, dateNow = (\<lambda>k. 1000 + int k),
      transcribeAudio = (\<lambda>b. Resolves (Some ''hello there'')),
      streamText = (\<lambda>h m. ([''Hi'', '' there''], False)),
      generateSpeech = (\<lambda>t. Resolves ''blob:reply''),
      playback = (\<lambda>u. Ended), getUserMedia = Stream\<rparr>"

definition sampleState :: "'m \<Rightarrow> 'm state" where
  \<comment> \<open>idle and listening, with one recorded chunk of 600 bytes\<close>
  "sampleState mode =
     \<lparr>messages = [],
      voiceState = \<lparr>isRecording = False, isProcessing = False, isPlaying = False,
                    audioLevel = 0, isListening = True, conversationMode = mode\<rparr>,
      showTextFallback = False, textInput = [], hasStartedConversation = False,
      conversationCount = 0, showChat = True, audioChunksRef = [replicate 600 0],
      currentAudioRef = None, continuousStreamRef = True, calls = []\<rparr>"

definition busyState :: "'m \<Rightarrow> 'm state" where
  \<comment> \<open>a turn is being processed, and \<open>hi\<close> is typed into the text fallback\<close>
  "busyState mode =
     (sampleState mode)\<lparr>voiceState := (voiceState (sampleState mode))\<lparr>isProcessing := True\<rparr>,
                         textInput := ''hi'', showTextFallback := True\<rparr>"

definition tickAt :: "int \<Rightarrow> real \<Rightarrow> tick" where
  \<comment> \<open>a tick at time \<open>n\<close> with energy \<open>r\<close>; a recorder would start, at the same time\<close>
  "tickAt n r =
     \<lparr>now = n, rms = r, guardIsRecording = False, guardIsProcessing = False,
      streamHeld = True, recorder = Starts, startNow = n\<rparr>"

definition sampleEvents :: "event list" where
  "sampleEvents = [Tick (tickAt 0 20), Tick (tickAt 250 20), Tick (tickAt 700 20)]"

section \<open>Properties of the model router\<close>

lemma includes_sublist: "includes_js s k = sublist k s"
  by (induction s) (simp_all add: sublist_Cons_right)

text \<open>
  C9. In auto mode \<open>determineOptimalModel\<close> is the precedence table of the
  specification: it looks for the keywords as substrings of the lower-cased utterance,
  group by group in the fixed order (code, programming, function, debug give
  \<open>gpt-4o\<close>; then write, story, creative, poem give \<open>claude-3-5-sonnet-20241022\<close>;
  then analyze, explain, compare, why give \<open>gpt-4o\<close>), the first group that matches
  wins, and \<open>gpt-4o-mini\<close> is returned when none does. The result is a function of
  the utterance and the selected model alone.
\<close>

theorem auto_mode_follows_precedence_table:
  "determineOptimalModel ''auto'' prompt = firstMatch routingTable prompt"
  by (simp add: determineOptimalModel_def routingTable_def mentions_def includes_sublist Let_def)

theorem auto_mode_follows_precedence_table_witness:
  "firstMatch routingTable ''please DEBUG this function'' = ''gpt-4o'' \<and>
   firstMatch routingTable ''Write a short story'' = ''claude-3-5-sonnet-20241022'' \<and>
   firstMatch routingTable ''write some code'' = ''gpt-4o'' \<and>
   firstMatch routingTable ''Explain WHY'' = ''gpt-4o'' \<and>
   firstMatch routingTable ''hello there'' = ''gpt-4o-mini''"
proof -
  have "determineOptimalModel ''auto'' ''please DEBUG this function'' = ''gpt-4o''"
    and "determineOptimalModel ''auto'' ''Write a short story'' = ''claude-3-5-sonnet-20241022''"
    and "determineOptimalModel ''auto'' ''write some code'' = ''gpt-4o''"
    and "determineOptimalModel ''auto'' ''Explain WHY'' = ''gpt-4o''"
    and "determineOptimalModel ''auto'' ''hello there'' = ''gpt-4o-mini''"
    by (simp_all add: determineOptimalModel_def toLowerCase_def toLowerUnit_def char_of_def bit_0)
  then show ?thesis
    by (simp only: auto_mode_follows_precedence_table)
qed

text \<open>
  C8. With an explicit override selected (any model other than \<open>auto\<close>),
  \<open>determineOptimalModel\<close> returns the override for every utterance; the keyword
  classifier is not consulted.
\<close>

theorem override_always_wins:
  "override \<noteq> ''auto'' \<Longrightarrow> determineOptimalModel override prompt = override"
  by (simp add: determineOptimalModel_def)

theorem override_always_wins_witness:
  "''gpt-4o'' \<noteq> ''auto'' \<and> determineOptimalModel ''gpt-4o'' ''write me a poem'' = ''gpt-4o''"
  using override_always_wins [of "''gpt-4o''" "''write me a poem''"] by simp

section \<open>Properties of trim\<close>

lemma length_trim: "length (trim s) \<le> length s"
proof -
  have "length (dropWhile isWhiteSpace (rev (dropWhile isWhiteSpace s))) \<le>
        length (rev (dropWhile isWhiteSpace s))"
    by (rule length_dropWhile_le)
  also have "\<dots> \<le> length s"
    by (simp add: length_dropWhile_le)
  finally show ?thesis by (simp add: trim_def)
qed

lemma trim_whitespace:
  assumes "\<forall>c\<in>set s. isWhiteSpace c"
  shows "trim s = []"
proof -
  from assms have d: "dropWhile isWhiteSpace s = []"
    by (induction s) simp_all
  show ?thesis unfolding trim_def d by simp
qed

section \<open>Properties of processRecording\<close>

subsection \<open>The paths through the function\<close>

lemma clip_not_empty:
  assumes "minBlobSize v \<le> length (concat (audioChunksRef s))"
  shows "concat (audioChunksRef s) \<noteq> []"
proof -
  have "0 < minBlobSize v"
    by (cases v) (simp_all add: minBlobSize_def)
  with assms have "length (concat (audioChunksRef s)) \<noteq> 0"
    by linarith
  then show ?thesis
    by (simp only: length_0_conv) simp
qed

lemma processRecording_no_chunks:
  "audioChunksRef s = [] \<Longrightarrow> processRecording v e s = (Returned, s)"
  by (simp add: processRecording_def)

lemma processRecording_small_clip:
  assumes "audioChunksRef s \<noteq> []"
    and "length (concat (audioChunksRef s)) < minBlobSize v"
  shows "processRecording v e s = (Returned, setIsProcessing False s)"
  using assms
  by (simp add: processRecording_def processRecordingBody_def finallyClear_def
      setIsProcessing_def Let_def)

lemma processRecording_short_transcript:
  assumes chunks: "audioChunksRef s \<noteq> []"
    and size: "minBlobSize v \<le> length (concat (audioChunksRef s))"
    and signed_in: "v = AppTsx \<longrightarrow> user e"
    and answer: "transcribeAudio e (concat (audioChunksRef s)) = Resolves r"
    and short: "length (transcriptText r) < 2"
  shows "processRecording v e s =
     (Returned,
      s\<lparr>messages := messages s @ [errorMessage e (notHeardText v)],
        voiceState := (voiceState s)\<lparr>isProcessing := False\<rparr>,
        showTextFallback := True,
        calls := calls s @ [TranscribeAudio (concat (audioChunksRef s)) ''en'' ''whisper-1'']\<rparr>)"
  using assms clip_not_empty [OF size]
  by (auto simp: processRecording_def processRecordingBody_def transcribe_def fallback_def
      finallyClear_def setIsProcessing_def appendMessage_def invoke_def Let_def)

lemma processRecording_long_transcript:
  assumes chunks: "audioChunksRef s \<noteq> []"
    and size: "minBlobSize v \<le> length (concat (audioChunksRef s))"
    and signed_in: "v = AppTsx \<longrightarrow> user e"
    and answer: "transcribeAudio e (concat (audioChunksRef s)) = Resolves r"
    and long: "2 \<le> length (transcriptText r)"
  shows "processRecording v e s =
     finallyClear (respond v e (transcriptText r)
       (invoke (TranscribeAudio (concat (audioChunksRef s)) ''en'' ''whisper-1'')
          (setIsProcessing True s)))"
proof -
  from long have "transcriptText r \<noteq> []"
    by auto
  with assms clip_not_empty [OF size] show ?thesis
    by (auto simp: processRecording_def processRecordingBody_def transcribe_def
        setIsProcessing_def invoke_def Let_def)
qed

lemma finallyClear_parts:
  "fst (finallyClear r) = fst r"
  "messages (snd (finallyClear r)) = messages (snd r)"
  "calls (snd (finallyClear r)) = calls (snd r)"
  "fst r = Returned \<Longrightarrow> \<not> isProcessing (voiceState (snd (finallyClear r)))"
  by (simp_all add: finallyClear_def setIsProcessing_def)

subsection \<open>Clips below the minimum size\<close>

text \<open>
  C5, as the claim states it, fails at one input. When the recorder delivered no chunk
  at all, the clip has size 0, below either minimum, and \<open>processRecording\<close> returns at
  its first statement, before it sets the processing flag and outside the
  \<open>try ... finally\<close> that clears it. A flag that was true at entry (a turn typed into the
  text fallback is being processed) is still true afterwards, in both components.
\<close>

theorem empty_recording_keeps_processing_flag_counterexample:
  "length (concat (audioChunksRef ((busyState True)\<lparr>audioChunksRef := []\<rparr>))) <
     minBlobSize ChatInterface \<and>
   isProcessing (voiceState ((busyState True)\<lparr>audioChunksRef := []\<rparr>)) \<and>
   isProcessing (voiceState (snd (processRecording ChatInterface sampleEnv
     ((busyState True)\<lparr>audioChunksRef := []\<rparr>)))) \<and>
   length (concat (audioChunksRef ((busyState Continuous)\<lparr>audioChunksRef := []\<rparr>))) <
     minBlobSize AppTsx \<and>
   isProcessing (voiceState ((busyState Continuous)\<lparr>audioChunksRef := []\<rparr>)) \<and>
   isProcessing (voiceState (snd (processRecording AppTsx sampleEnv
     ((busyState Continuous)\<lparr>audioChunksRef := []\<rparr>))))"
  by (simp add: processRecording_def busyState_def sampleState_def minBlobSize_def)

text \<open>
  C5, as amended. When the recorded chunks add up to fewer bytes than the minimum (100
  in \<open>App.tsx\<close>, 500 in the chat component), \<open>processRecording\<close> returns without calling
  the transcription service or any other collaborator and appends no message. When at
  least one chunk was recorded it leaves the processing flag false, and nothing else in
  the state is changed. When no chunk was recorded it returns with the whole state as
  it was, the processing flag included.
\<close>

theorem small_clip_is_dropped:
  assumes "length (concat (audioChunksRef s)) < minBlobSize v"
  shows "fst (processRecording v e s) = Returned \<and>
         calls (snd (processRecording v e s)) = calls s \<and>
         messages (snd (processRecording v e s)) = messages s \<and>
         (audioChunksRef s \<noteq> [] \<longrightarrow>
            snd (processRecording v e s) = s\<lparr>voiceState := (voiceState s)\<lparr>isProcessing := False\<rparr>\<rparr> \<and>
            \<not> isProcessing (voiceState (snd (processRecording v e s)))) \<and>
         (audioChunksRef s = [] \<longrightarrow> snd (processRecording v e s) = s) \<and>
         minBlobSize AppTsx = 100 \<and> minBlobSize ChatInterface = 500"
proof (cases "audioChunksRef s = []")
  case True
  then show ?thesis
    by (simp add: processRecording_no_chunks minBlobSize_def)
next
  case False
  from processRecording_small_clip [OF False assms, of e] False show ?thesis
    by (simp add: setIsProcessing_def minBlobSize_def)
qed

theorem small_clip_is_dropped_witness:
  "length (concat (audioChunksRef
      ((sampleState Continuous)\<lparr>audioChunksRef := [replicate 60 0, replicate 39 0]\<rparr>))) < minBlobSize AppTsx \<and>
   audioChunksRef ((sampleState Continuous)\<lparr>audioChunksRef := [replicate 60 0, replicate 39 0]\<rparr>) \<noteq> [] \<and>
   calls (snd (processRecording AppTsx sampleEnv
      ((sampleState Continuous)\<lparr>audioChunksRef := [replicate 60 0, replicate 39 0]\<rparr>))) = [] \<and>
   messages (snd (processRecording AppTsx sampleEnv
      ((sampleState Continuous)\<lparr>audioChunksRef := [replicate 60 0, replicate 39 0]\<rparr>))) = [] \<and>
   \<not> isProcessing (voiceState (snd (processRecording AppTsx sampleEnv
      ((sampleState Continuous)\<lparr>audioChunksRef := [replicate 60 0, replicate 39 0]\<rparr>)))) \<and>
   length (concat (audioChunksRef ((busyState True)\<lparr>audioChunksRef := []\<rparr>))) <
     minBlobSize ChatInterface \<and>
   audioChunksRef ((busyState True)\<lparr>audioChunksRef := []\<rparr>) = [] \<and>
   snd (processRecording ChatInterface sampleEnv ((busyState True)\<lparr>audioChunksRef := []\<rparr>)) =
     (busyState True)\<lparr>audioChunksRef := []\<rparr>"
proof -
  let ?s = "(sampleState Continuous)\<lparr>audioChunksRef := [replicate 60 0, replicate 39 0]\<rparr>"
  let ?b = "(busyState True)\<lparr>audioChunksRef := []\<rparr>"
  have a: "length (concat (audioChunksRef ?s)) < minBlobSize AppTsx"
    and c: "audioChunksRef ?s \<noteq> []"
    and a': "length (concat (audioChunksRef ?b)) < minBlobSize ChatInterface"
    and c': "audioChunksRef ?b = []"
    by (simp_all add: minBlobSize_def)
  have st: "calls ?s = []" "messages ?s = []"
    by (simp_all add: sampleState_def)
  from small_clip_is_dropped [OF a, of sampleEnv] c
  have "calls (snd (processRecording AppTsx sampleEnv ?s)) = calls ?s"
    and "messages (snd (processRecording AppTsx sampleEnv ?s)) = messages ?s"
    and "\<not> isProcessing (voiceState (snd (processRecording AppTsx sampleEnv ?s)))"
    by blast+
  moreover from small_clip_is_dropped [OF a', of sampleEnv] c'
  have "snd (processRecording ChatInterface sampleEnv ?b) = ?b"
    by blast
  ultimately show ?thesis
    using a c a' c' by (simp add: st)
qed

subsection \<open>Empty and very short transcripts\<close>

text \<open>
  C3. When the transcription service returns the empty string, or a transcript of
  fewer than 2 characters, \<open>processRecording\<close> returns with exactly one message added to
  the log, written by the assistant (the "couldn't hear you clearly" text); no user
  message is added; the transcription request is the only call made, so neither the
  generation service nor the \<open>onConversationComplete\<close> callback is called; the
  conversation count is unchanged; the text fallback is shown; and the processing flag
  is false. The first three hypotheses say that the function gets as far as the
  transcription request.
\<close>

theorem short_transcript_gives_one_fallback_message:
  assumes "audioChunksRef s \<noteq> []"
    and "minBlobSize v \<le> length (concat (audioChunksRef s))"
    and "v = AppTsx \<longrightarrow> user e"
    and "transcribeAudio e (concat (audioChunksRef s)) = Resolves (Some t)"
    and "length t < 2"
  shows "fst (processRecording v e s) = Returned \<and>
         messages (snd (processRecording v e s)) = messages s @ [errorMessage e (notHeardText v)] \<and>
         msg_type (errorMessage e (notHeardText v)) = Assistant \<and>
         calls (snd (processRecording v e s)) =
           calls s @ [TranscribeAudio (concat (audioChunksRef s)) ''en'' ''whisper-1''] \<and>
         conversationCount (snd (processRecording v e s)) = conversationCount s \<and>
         showTextFallback (snd (processRecording v e s)) \<and>
         \<not> isProcessing (voiceState (snd (processRecording v e s)))"
proof -
  have "length (transcriptText (Some t)) \<le> length t"
    by (simp add: transcriptText_def length_trim)
  with assms(5) have "length (transcriptText (Some t)) < 2"
    by simp
  from processRecording_short_transcript [OF assms(1-4) this] show ?thesis
    by (simp add: errorMessage_def)
qed

theorem short_transcript_gives_one_fallback_message_witness:
  "audioChunksRef (sampleState True) \<noteq> [] \<and>
   minBlobSize ChatInterface \<le> length (concat (audioChunksRef (sampleState True))) \<and>
   transcribeAudio (sampleEnv\<lparr>transcribeAudio := \<lambda>b. Resolves (Some ''a'')\<rparr>)
     (concat (audioChunksRef (sampleState True))) = Resolves (Some ''a'') \<and>
   length ''a'' < 2 \<and>
   fst (processRecording ChatInterface (sampleEnv\<lparr>transcribeAudio := \<lambda>b. Resolves (Some ''a'')\<rparr>)
          (sampleState True)) = Returned \<and>
   map msg_type (messages (snd (processRecording ChatInterface
          (sampleEnv\<lparr>transcribeAudio := \<lambda>b. Resolves (Some ''a'')\<rparr>) (sampleState True)))) =
     [Assistant] \<and>
   calls (snd (processRecording ChatInterface
          (sampleEnv\<lparr>transcribeAudio := \<lambda>b. Resolves (Some ''a'')\<rparr>) (sampleState True))) =
     [TranscribeAudio (replicate 600 0) ''en'' ''whisper-1''] \<and>
   showTextFallback (snd (processRecording ChatInterface
          (sampleEnv\<lparr>transcribeAudio := \<lambda>b. Resolves (Some ''a'')\<rparr>) (sampleState True))) \<and>
   \<not> isProcessing (voiceState (snd (processRecording ChatInterface
          (sampleEnv\<lparr>transcribeAudio := \<lambda>b. Resolves (Some ''a'')\<rparr>) (sampleState True))))"
proof -
  let ?e = "sampleEnv\<lparr>transcribeAudio := \<lambda>b. Resolves (Some ''a'')\<rparr>"
  let ?s = "sampleState True"
  have a: "audioChunksRef ?s \<noteq> []"
    and b: "minBlobSize ChatInterface \<le> length (concat (audioChunksRef ?s))"
    and c: "ChatInterface = AppTsx \<longrightarrow> user ?e"
    and d: "transcribeAudio ?e (concat (audioChunksRef ?s)) = Resolves (Some ''a'')"
    and f: "length ''a'' < 2"
    by (simp_all add: sampleState_def sampleEnv_def minBlobSize_def)
  from short_transcript_gives_one_fallback_message [OF a b c d f] a b d show ?thesis
    by (simp add: sampleState_def)
qed

text \<open>
  C10. The text of the transcription result is trimmed, and a missing \<open>text\<close> field
  becomes the empty string, before the length is tested. So a result without text, and
  a result whose text has only white space, of any length, gives the empty transcript:
  \<open>processRecording\<close> ends in the same state as for a result with the empty string,
  which is the "couldn't hear you clearly" branch, with one fallback message, no user
  message, and no call after the transcription request.
\<close>

theorem whitespace_transcript_is_empty_transcript:
  assumes "audioChunksRef s \<noteq> []"
    and "minBlobSize v \<le> length (concat (audioChunksRef s))"
    and "v = AppTsx \<longrightarrow> user e"
    and "transcribeAudio e (concat (audioChunksRef s)) = Resolves r"
    and "r = None \<or> (\<exists>t. r = Some t \<and> (\<forall>c\<in>set t. isWhiteSpace c))"
  shows "transcriptText r = [] \<and>
         processRecording v e s =
           processRecording v (e\<lparr>transcribeAudio := \<lambda>b. Resolves (Some [])\<rparr>) s \<and>
         messages (snd (processRecording v e s)) = messages s @ [errorMessage e (notHeardText v)] \<and>
         calls (snd (processRecording v e s)) =
           calls s @ [TranscribeAudio (concat (audioChunksRef s)) ''en'' ''whisper-1'']"
proof -
  from assms(5) have empty: "transcriptText r = []"
    by (auto simp: transcriptText_def trim_whitespace)
  then have short: "length (transcriptText r) < 2"
    by simp
  let ?e = "e\<lparr>transcribeAudio := \<lambda>b. Resolves (Some [])\<rparr>"
  have e3: "v = AppTsx \<longrightarrow> user ?e"
    using assms(3) by simp
  have e4: "transcribeAudio ?e (concat (audioChunksRef s)) = Resolves (Some [])"
    by simp
  have e5: "length (transcriptText (Some [])) < 2"
    by (simp add: transcriptText_def trim_def)
  have "processRecording v e s = processRecording v ?e s"
    unfolding processRecording_short_transcript [OF assms(1-4) short]
      processRecording_short_transcript [OF assms(1,2) e3 e4 e5]
    by (simp add: errorMessage_def)
  with empty processRecording_short_transcript [OF assms(1-4) short] show ?thesis
    by simp
qed

theorem whitespace_transcript_is_empty_transcript_witness:
  "audioChunksRef (sampleState Continuous) \<noteq> [] \<and>
   minBlobSize AppTsx \<le> length (concat (audioChunksRef (sampleState Continuous))) \<and>
   user (sampleEnv\<lparr>transcribeAudio := \<lambda>b. Resolves (Some [CHR 0x20, CHR 0x09, CHR 0xA0, CHR 0x0A, CHR 0x20])\<rparr>) \<and>
   isWhiteSpace (CHR 0x20) \<and> isWhiteSpace (CHR 0x09) \<and> isWhiteSpace (CHR 0xA0) \<and>
   isWhiteSpace (CHR 0x0A) \<and>
   transcriptText (Some [CHR 0x20, CHR 0x09, CHR 0xA0, CHR 0x0A, CHR 0x20]) = [] \<and>
   messages (snd (processRecording AppTsx
       (sampleEnv\<lparr>transcribeAudio := \<lambda>b. Resolves (Some [CHR 0x20, CHR 0x09, CHR 0xA0, CHR 0x0A, CHR 0x20])\<rparr>)
       (sampleState Continuous))) =
     [errorMessage sampleEnv (notHeardText AppTsx)] \<and>
   calls (snd (processRecording AppTsx
       (sampleEnv\<lparr>transcribeAudio := \<lambda>b. Resolves (Some [CHR 0x20, CHR 0x09, CHR 0xA0, CHR 0x0A, CHR 0x20])\<rparr>)
       (sampleState Continuous))) =
     [TranscribeAudio (replicate 600 0) ''en'' ''whisper-1'']"
proof -
  let ?t = "[CHR 0x20, CHR 0x09, CHR 0xA0, CHR 0x0A, CHR 0x20]"
  let ?e = "sampleEnv\<lparr>transcribeAudio := \<lambda>b. Resolves (Some ?t)\<rparr>"
  let ?s = "sampleState Continuous"
  have a: "audioChunksRef ?s \<noteq> []"
    and b: "minBlobSize AppTsx \<le> length (concat (audioChunksRef ?s))"
    and u: "user ?e"
    and d: "transcribeAudio ?e (concat (audioChunksRef ?s)) = Resolves (Some ?t)"
    by (simp_all add: sampleState_def sampleEnv_def minBlobSize_def)
  have w: "\<forall>c\<in>set ?t. isWhiteSpace c"
    by (simp add: isWhiteSpace_def)
  from u have c: "AppTsx = AppTsx \<longrightarrow> user ?e"
    by simp
  from w have f: "Some ?t = None \<or> (\<exists>t. Some ?t = Some t \<and> (\<forall>c\<in>set t. isWhiteSpace c))"
    by blast
  have em: "errorMessage ?e (notHeardText AppTsx) = errorMessage sampleEnv (notHeardText AppTsx)"
    by (simp add: errorMessage_def)
  have st: "messages ?s = []" "calls ?s = []" "concat (audioChunksRef ?s) = replicate 600 0"
    by (simp_all add: sampleState_def)
  from whitespace_transcript_is_empty_transcript [OF a b c d f]
  have "transcriptText (Some ?t) = []"
    and "messages (snd (processRecording AppTsx ?e ?s)) =
           messages ?s @ [errorMessage ?e (notHeardText AppTsx)]"
    and "calls (snd (processRecording AppTsx ?e ?s)) =
           calls ?s @ [TranscribeAudio (concat (audioChunksRef ?s)) ''en'' ''whisper-1'']"
    by blast+
  with a b u w show ?thesis
    by (simp add: em st)
qed

subsection \<open>An error of the generation service\<close>

lemma onChunk_pair:
  "onChunk aid (rt, s) chunk =
     (rt @ chunk, updateMessage aid (\<lambda>msg. msg\<lparr>content := rt @ chunk\<rparr>) s)"
  by (simp add: onChunk_def Let_def)

lemma updateMessage_content_twice:
  "updateMessage i (\<lambda>msg. msg\<lparr>content := b\<rparr>) (updateMessage i (\<lambda>msg. msg\<lparr>content := a\<rparr>) s) =
   updateMessage i (\<lambda>msg. msg\<lparr>content := b\<rparr>) s"
  by (simp add: updateMessage_def comp_def cong: if_cong)

lemma foldl_onChunk:
  "foldl (onChunk aid) (rt, s) chunks =
     (rt @ concat chunks,
      if chunks = [] then s else updateMessage aid (\<lambda>msg. msg\<lparr>content := rt @ concat chunks\<rparr>) s)"
proof (induction chunks arbitrary: rt s)
  case Nil
  show ?case by simp
next
  case (Cons c cs)
  show ?case
    by (simp add: Cons onChunk_pair updateMessage_content_twice)
qed

lemma beginTurn_throwing:
  assumes "snd (streamText e (conversationHistory e text) (requestedModel e text))"
  shows "fst (snd (beginTurn v e text s))"
  using assms by (simp add: beginTurn_def Let_def)

lemma beginTurn_calls:
  "calls (snd (snd (beginTurn v e text s))) =
     calls s @ [StreamText (conversationHistory e text) (requestedModel e text) 300]"
  by (simp add: beginTurn_def Let_def foldl_onChunk invoke_def appendMessage_def updateMessage_def)

lemma beginTurn_voiceState:
  "voiceState (snd (snd (beginTurn v e text s))) = voiceState s"
  by (simp add: beginTurn_def Let_def foldl_onChunk invoke_def appendMessage_def updateMessage_def)

lemma beginTurn_messages:
  "messages (snd (snd (beginTurn v e text s))) =
     (let chunks = fst (streamText e (conversationHistory e text) (requestedModel e text));
          base = messages s @ [userMessage e text, assistantMessage e text]
      in if chunks = [] then base
         else map (\<lambda>msg. if msg_id msg = msg_id (assistantMessage e text)
                          then msg\<lparr>content := concat chunks\<rparr> else msg) base)"
  by (simp add: beginTurn_def Let_def foldl_onChunk invoke_def appendMessage_def updateMessage_def)

lemma respond_after_throw:
  assumes "snd (streamText e (conversationHistory e text) (requestedModel e text))"
  shows "length (messages (snd (respond v e text s))) = length (messages s) + 2 \<and>
         msg_id (last (messages (snd (respond v e text s)))) = dateNow e 2 + 1 \<and>
         msg_type (last (messages (snd (respond v e text s)))) = Assistant \<and>
         content (last (messages (snd (respond v e text s)))) = apologyText \<and>
         isStreaming (last (messages (snd (respond v e text s)))) = Some False \<and>
         calls (snd (respond v e text s)) =
           calls s @ [StreamText (conversationHistory e text) (requestedModel e text) 300,
                      GenerateSpeech apologyText ''nova''] @
           (case generateSpeech e apologyText of Throws \<Rightarrow> [] | Resolves url \<Rightarrow> [PlayAudio url]) @
           (if v = ChatInterface \<and> fst (respond v e text s) = Returned
            then [OnConversationComplete] else []) \<and>
         isProcessing (voiceState (snd (respond v e text s))) = isProcessing (voiceState s)"
proof -
  obtain rt s1 where bt: "beginTurn v e text s = (rt, True, s1)"
    using beginTurn_throwing [OF assms, of v s] by (cases "beginTurn v e text s") auto
  have c1: "calls s1 = calls s @ [StreamText (conversationHistory e text) (requestedModel e text) 300]"
    using beginTurn_calls [of v e "text" s] by (simp add: bt)
  have vs: "voiceState s1 = voiceState s"
    using beginTurn_voiceState [of v e "text" s] by (simp add: bt)
  have "\<exists>ms m. messages s1 = ms @ [m] \<and> length ms = length (messages s) + 1 \<and>
          msg_id m = dateNow e 2 + 1 \<and> msg_type m = Assistant"
    using beginTurn_messages [of v e "text" s]
    by (simp add: bt Let_def assistantMessage_def split: if_splits)
  then obtain ms m where ms: "messages s1 = ms @ [m]"
    and len: "length ms = length (messages s) + 1"
    and m: "msg_id m = dateNow e 2 + 1" "msg_type m = Assistant"
    by blast
  show ?thesis
    unfolding respond_def bt
    using c1 vs ms len m
    by (cases "generateSpeech e apologyText")
      (simp_all add: Let_def speak_def playAudio_def markComplete_def
        updateMessage_def invoke_def setIsPlaying_def assistantMessage_def)
qed

text \<open>
  C4. When \<open>streamText\<close> throws during a turn of \<open>processRecording\<close>, after any number
  of chunks, the assistant message of the turn (the last of the log, with the id made
  for it) gets the fixed apology as its content and is marked as no longer streaming;
  the speech service is then called with exactly the apology text; and the exception
  does not leave the function, which goes on to the playback and, when the playback
  resolves, returns with the processing flag false. The first five hypotheses say that
  the turn gets as far as the generation request.
\<close>

theorem generation_error_is_replaced_by_apology:
  assumes "audioChunksRef s \<noteq> []"
    and "minBlobSize v \<le> length (concat (audioChunksRef s))"
    and "v = AppTsx \<longrightarrow> user e"
    and "transcribeAudio e (concat (audioChunksRef s)) = Resolves r"
    and "2 \<le> length (transcriptText r)"
    and "snd (streamText e (conversationHistory e (transcriptText r))
                (requestedModel e (transcriptText r)))"
  shows "length (messages (snd (processRecording v e s))) = length (messages s) + 2 \<and>
         msg_id (last (messages (snd (processRecording v e s)))) = dateNow e 2 + 1 \<and>
         msg_type (last (messages (snd (processRecording v e s)))) = Assistant \<and>
         content (last (messages (snd (processRecording v e s)))) =
           ''Sorry, I encountered an error processing your request. Please try again.'' \<and>
         isStreaming (last (messages (snd (processRecording v e s)))) = Some False \<and>
         calls (snd (processRecording v e s)) =
           calls s @
           [TranscribeAudio (concat (audioChunksRef s)) ''en'' ''whisper-1'',
            StreamText (conversationHistory e (transcriptText r))
              (requestedModel e (transcriptText r)) 300,
            GenerateSpeech
              ''Sorry, I encountered an error processing your request. Please try again.''
              ''nova''] @
           (case generateSpeech e apologyText of Throws \<Rightarrow> [] | Resolves url \<Rightarrow> [PlayAudio url]) @
           (if v = ChatInterface \<and> fst (processRecording v e s) = Returned
            then [OnConversationComplete] else []) \<and>
         (fst (processRecording v e s) = Returned \<longrightarrow>
            \<not> isProcessing (voiceState (snd (processRecording v e s))))"
proof -
  define s1 where "s1 = invoke (TranscribeAudio (concat (audioChunksRef s)) ''en'' ''whisper-1'')
          (setIsProcessing True s)"
  have p: "processRecording v e s = finallyClear (respond v e (transcriptText r) s1)"
    unfolding s1_def by (rule processRecording_long_transcript [OF assms(1-5)])
  have s1: "messages s1 = messages s"
    "calls s1 = calls s @ [TranscribeAudio (concat (audioChunksRef s)) ''en'' ''whisper-1'']"
    by (simp_all add: s1_def invoke_def setIsProcessing_def)
  from respond_after_throw [OF assms(6), of v s1] show ?thesis
    unfolding p
    by (simp add: s1 finallyClear_parts apologyText_def)
qed

theorem generation_error_is_replaced_by_apology_witness:
  "audioChunksRef (sampleState True) \<noteq> [] \<and>
   minBlobSize ChatInterface \<le> length (concat (audioChunksRef (sampleState True))) \<and>
   transcribeAudio (sampleEnv\<lparr>streamText := \<lambda>h m. ([''Hi''], True)\<rparr>)
     (concat (audioChunksRef (sampleState True))) = Resolves (Some ''hello there'') \<and>
   2 \<le> length (transcriptText (Some ''hello there'')) \<and>
   snd (streamText (sampleEnv\<lparr>streamText := \<lambda>h m. ([''Hi''], True)\<rparr>)
     (conversationHistory (sampleEnv\<lparr>streamText := \<lambda>h m. ([''Hi''], True)\<rparr>) ''hello there'')
     (requestedModel (sampleEnv\<lparr>streamText := \<lambda>h m. ([''Hi''], True)\<rparr>) ''hello there'')) \<and>
   content (last (messages (snd (processRecording ChatInterface
       (sampleEnv\<lparr>streamText := \<lambda>h m. ([''Hi''], True)\<rparr>) (sampleState True))))) =
     ''Sorry, I encountered an error processing your request. Please try again.'' \<and>
   isStreaming (last (messages (snd (processRecording ChatInterface
       (sampleEnv\<lparr>streamText := \<lambda>h m. ([''Hi''], True)\<rparr>) (sampleState True))))) = Some False \<and>
   length (messages (snd (processRecording ChatInterface
       (sampleEnv\<lparr>streamText := \<lambda>h m. ([''Hi''], True)\<rparr>) (sampleState True)))) = 2"
proof -
  let ?e = "sampleEnv\<lparr>streamText := \<lambda>h m. ([''Hi''], True)\<rparr>"
  let ?s = "sampleState True"
  have a: "audioChunksRef ?s \<noteq> []"
    and b: "minBlobSize ChatInterface \<le> length (concat (audioChunksRef ?s))"
    and c: "ChatInterface = AppTsx \<longrightarrow> user ?e"
    and d: "transcribeAudio ?e (concat (audioChunksRef ?s)) = Resolves (Some ''hello there'')"
    and f: "2 \<le> length (transcriptText (Some ''hello there''))"
    and g: "snd (streamText ?e (conversationHistory ?e (transcriptText (Some ''hello there'')))
                  (requestedModel ?e (transcriptText (Some ''hello there''))))"
    and h: "snd (streamText ?e (conversationHistory ?e ''hello there'')
                  (requestedModel ?e ''hello there''))"
    by (simp_all add: sampleState_def sampleEnv_def minBlobSize_def transcriptText_def trim_def
        isWhiteSpace_def)
  from generation_error_is_replaced_by_apology [OF a b c d f g] a b d f h show ?thesis
    by (simp add: sampleState_def)
qed

section \<open>Properties of manual text entry and of the conversation limit\<close>

subsection \<open>What handleTextSubmit does when its guard lets the text through\<close>

lemma types_map_update:
  assumes "\<And>msg. msg_type (f msg) = msg_type msg"
  shows "map msg_type (map (\<lambda>msg. if msg_id msg = i then f msg else msg) ms) = map msg_type ms"
  using assms by (induction ms) simp_all

lemma types_updateMessage:
  assumes "\<And>msg. msg_type (f msg) = msg_type msg"
  shows "map msg_type (messages (updateMessage i f s)) = map msg_type (messages s)"
  using types_map_update [of f i "messages s", OF assms] by (simp add: updateMessage_def)

lemma calls_updateMessage: "calls (updateMessage i f s) = calls s"
  by (simp add: updateMessage_def)

lemma beginTurn_types:
  "map msg_type (messages (snd (snd (beginTurn v e text s)))) =
     map msg_type (messages s) @ [User, Assistant]"
proof -
  have "map msg_type (messages s @ [userMessage e text, assistantMessage e text]) =
      map msg_type (messages s) @ [User, Assistant]"
    by (simp add: userMessage_def assistantMessage_def)
  then show ?thesis
    unfolding beginTurn_messages Let_def
    by (simp only: types_map_update message.simps if_True if_False split: if_splits) simp
qed

lemma handleTextSubmitBody_runs:
  "map msg_type (messages (snd (handleTextSubmitBody v e text s))) =
     map msg_type (messages s) @ [User, Assistant] \<and>
   prefix (calls s @ [StreamText (conversationHistory e text) (requestedModel e text) 300])
     (calls (snd (handleTextSubmitBody v e text s)))"
proof -
  obtain rt thrown s1 where bt: "beginTurn v e text s = (rt, thrown, s1)"
    by (cases "beginTurn v e text s") auto
  have c1: "calls s1 = calls s @ [StreamText (conversationHistory e text) (requestedModel e text) 300]"
    using beginTurn_calls [of v e "text" s] by (simp add: bt)
  have ty: "map msg_type (messages s1) = map msg_type (messages s) @ [User, Assistant]"
    using beginTurn_types [of v e "text" s] by (simp add: bt)
  have upd: "map msg_type (messages (updateMessage i (\<lambda>msg. msg\<lparr>isStreaming := x\<rparr>) s')) =
      map msg_type (messages s')"
    "map msg_type (messages (updateMessage i (\<lambda>msg. msg\<lparr>audioUrl := y\<rparr>) s')) =
      map msg_type (messages s')" for i x y and s' :: "'a state"
    by (simp_all add: types_updateMessage)
  show ?thesis
    unfolding handleTextSubmitBody_def bt
    using c1 ty
    by (cases "generateSpeech e rt"; cases v)
      (simp_all add: Let_def speak_def playAudio_def markComplete_def upd calls_updateMessage
        invoke_def setIsPlaying_def)
qed

lemma handleTextSubmit_runs:
  assumes "trim text \<noteq> []"
    and "v = AppTsx \<longrightarrow> user e"
    and "v = ChatInterface \<longrightarrow> \<not> maxFreeConversations e \<le> conversationCountProp e"
  shows "map msg_type (messages (snd (handleTextSubmit v e text s))) =
           map msg_type (messages s) @ [User, Assistant]"
    and "prefix (calls s @ [StreamText (conversationHistory e text) (requestedModel e text) 300])
           (calls (snd (handleTextSubmit v e text s)))"
    and "handleTextSubmit v e text (setIsProcessing b s) = handleTextSubmit v e text s"
proof -
  have run: "handleTextSubmit v e text s =
      finallyClear (handleTextSubmitBody v e text (setIsProcessing True s))" for s :: "'a state"
    using assms by (cases v) (simp_all add: handleTextSubmit_def hasReachedLimit_def)
  have same: "messages (setIsProcessing True s) = messages s"
    "calls (setIsProcessing True s) = calls s"
    by (simp_all add: setIsProcessing_def)
  from handleTextSubmitBody_runs [of v e "text" "setIsProcessing True s"]
  show "map msg_type (messages (snd (handleTextSubmit v e text s))) =
           map msg_type (messages s) @ [User, Assistant]"
    and "prefix (calls s @ [StreamText (conversationHistory e text) (requestedModel e text) 300])
           (calls (snd (handleTextSubmit v e text s)))"
    by (simp_all add: run finallyClear_parts same)
  have "setIsProcessing True (setIsProcessing b s) = setIsProcessing True s"
    by (simp add: setIsProcessing_def)
  then show "handleTextSubmit v e text (setIsProcessing b s) = handleTextSubmit v e text s"
    by (simp add: run)
qed

subsection \<open>Manual submission while a turn is being processed\<close>

text \<open>
  C6, as the claim states it, fails. \<open>handleTextSubmit\<close> does not read the processing
  flag: called with a text that is not blank while the flag is true (and the user
  signed in, the limit not reached) it runs a whole turn. On the sample state, with the
  flag set and an empty log, it appends the user message and the assistant message and
  calls the generation service, in both components.
\<close>

theorem text_submit_while_processing_counterexample:
  "isProcessing (voiceState (busyState True)) \<and> messages (busyState True) = [] \<and>
   calls (busyState True) = [] \<and>
   map content (messages (snd (handleTextSubmit ChatInterface sampleEnv ''hi'' (busyState True)))) =
     [''hi'', ''Hi there''] \<and>
   calls (snd (handleTextSubmit ChatInterface sampleEnv ''hi'' (busyState True))) =
     [StreamText [(User, ''hi'')] ''gpt-4o-mini'' 300, GenerateSpeech ''Hi there'' ''nova'',
      PlayAudio ''blob:reply'', OnConversationComplete] \<and>
   isProcessing (voiceState (busyState Continuous)) \<and> messages (busyState Continuous) = [] \<and>
   map content (messages (snd (handleTextSubmit AppTsx sampleEnv ''hi'' (busyState Continuous)))) =
     [''hi'', ''Hi there''] \<and>
   conversationCount (snd (handleTextSubmit AppTsx sampleEnv ''hi'' (busyState Continuous))) =
     conversationCount (busyState Continuous) + 1"
  by (simp add: busyState_def sampleState_def sampleEnv_def handleTextSubmit_def
      handleTextSubmitBody_def hasReachedLimit_def trim_def isWhiteSpace_def finallyClear_def
      beginTurn_def userMessage_def assistantMessage_def conversationHistory_def
      requestedModel_def determineOptimalModel_def toLowerCase_def toLowerUnit_def
      onChunk_def speak_def playAudio_def markComplete_def updateMessage_def invoke_def
      appendMessage_def setIsProcessing_def setIsPlaying_def Let_def)

text \<open>
  C6, as amended. \<open>handleTextSubmit\<close> returns without appending a message, without
  calling the generation service and without changing any state exactly when the text
  is blank after trimming, or no user is signed in (\<open>App.tsx\<close>), or the conversation
  limit is reached (chat component). It does not test the processing flag: for every
  other input it appends two messages to the log, one of the user and one of the
  assistant, and calls the generation service, and its result is the same whether the
  flag was true or false at entry.
\<close>

theorem handleTextSubmit_rejects_on_its_guard_only:
  "(handleTextSubmit v e text s = (Returned, s)) =
     (trim text = [] \<or> (v = AppTsx \<and> \<not> user e) \<or>
      (v = ChatInterface \<and> maxFreeConversations e \<le> conversationCountProp e)) \<and>
   (\<not> (trim text = [] \<or> (v = AppTsx \<and> \<not> user e) \<or>
       (v = ChatInterface \<and> maxFreeConversations e \<le> conversationCountProp e)) \<longrightarrow>
      map msg_type (messages (snd (handleTextSubmit v e text s))) =
        map msg_type (messages s) @ [User, Assistant] \<and>
      prefix (calls s @ [StreamText (conversationHistory e text) (requestedModel e text) 300])
        (calls (snd (handleTextSubmit v e text s))) \<and>
      handleTextSubmit v e text (setIsProcessing True s) =
        handleTextSubmit v e text (setIsProcessing False s))"
proof (cases "trim text = [] \<or> (v = AppTsx \<and> \<not> user e) \<or>
      (v = ChatInterface \<and> maxFreeConversations e \<le> conversationCountProp e)")
  case True
  then have "handleTextSubmit v e text s = (Returned, s)"
    by (cases v) (auto simp: handleTextSubmit_def hasReachedLimit_def)
  with True show ?thesis by simp
next
  case False
  then have g: "trim text \<noteq> []" "v = AppTsx \<longrightarrow> user e"
    "v = ChatInterface \<longrightarrow> \<not> maxFreeConversations e \<le> conversationCountProp e"
    by auto
  note run = handleTextSubmit_runs [OF g]
  have "handleTextSubmit v e text s \<noteq> (Returned, s)"
  proof
    assume "handleTextSubmit v e text s = (Returned, s)"
    then have "map msg_type (messages (snd (handleTextSubmit v e text s))) =
        map msg_type (messages s)"
      by simp
    with run(1) [of s] show False
      by simp
  qed
  moreover have "handleTextSubmit v e text (setIsProcessing True s) =
        handleTextSubmit v e text (setIsProcessing False s)"
    by (simp add: run(3))
  ultimately show ?thesis
    using False run(1) [of s] run(2) [of s] by simp
qed

theorem handleTextSubmit_rejects_on_its_guard_only_witness:
  "trim ''hi'' \<noteq> [] \<and> user sampleEnv \<and>
   \<not> maxFreeConversations sampleEnv \<le> conversationCountProp sampleEnv \<and>
   isProcessing (voiceState (busyState True)) \<and>
   handleTextSubmit ChatInterface sampleEnv ''hi'' (busyState True) \<noteq> (Returned, busyState True) \<and>
   map msg_type (messages (snd (handleTextSubmit ChatInterface sampleEnv ''hi'' (busyState True)))) =
     map msg_type (messages (busyState True)) @ [User, Assistant] \<and>
   handleTextSubmit AppTsx sampleEnv ''hi'' (busyState Continuous) \<noteq> (Returned, busyState Continuous) \<and>
   trim ''  '' = [] \<and>
   handleTextSubmit AppTsx sampleEnv ''  '' (busyState Continuous) = (Returned, busyState Continuous) \<and>
   handleTextSubmit AppTsx (sampleEnv\<lparr>user := False\<rparr>) ''hi'' (busyState Continuous) =
     (Returned, busyState Continuous) \<and>
   handleTextSubmit ChatInterface (sampleEnv\<lparr>conversationCountProp := 8\<rparr>) ''hi'' (busyState True) =
     (Returned, busyState True)"
proof -
  have a: "trim ''hi'' \<noteq> []" and b: "user sampleEnv"
    and c: "\<not> maxFreeConversations sampleEnv \<le> conversationCountProp sampleEnv"
    and d: "isProcessing (voiceState (busyState True))"
    and f: "trim ''  '' = []"
    and g: "\<not> user (sampleEnv\<lparr>user := False\<rparr>)"
    and h: "maxFreeConversations (sampleEnv\<lparr>conversationCountProp := 8\<rparr>) \<le>
            conversationCountProp (sampleEnv\<lparr>conversationCountProp := 8\<rparr>)"
    by (simp_all add: trim_def isWhiteSpace_def sampleEnv_def busyState_def)
  from handleTextSubmit_rejects_on_its_guard_only [of ChatInterface sampleEnv "''hi''" "busyState True"]
    handleTextSubmit_rejects_on_its_guard_only [of AppTsx sampleEnv "''hi''" "busyState Continuous"]
    handleTextSubmit_rejects_on_its_guard_only [of AppTsx sampleEnv "''  ''" "busyState Continuous"]
    handleTextSubmit_rejects_on_its_guard_only
      [of AppTsx "sampleEnv\<lparr>user := False\<rparr>" "''hi''" "busyState Continuous"]
    handleTextSubmit_rejects_on_its_guard_only
      [of ChatInterface "sampleEnv\<lparr>conversationCountProp := 8\<rparr>" "''hi''" "busyState True"]
    a b c d f g h
  show ?thesis by simp
qed

subsection \<open>The conversation limit\<close>

text \<open>
  C7, as the claim states it, fails. In \<open>App.tsx\<close> the count is tested by
  \<open>handleStartChat\<close> alone. \<open>handleTextSubmit\<close> of \<open>App.tsx\<close> does not read it: with the
  count at the maximum of 8 it runs a turn, appends the user message and the assistant
  message, and raises the count to 9. Nor does \<open>processRecording\<close> read the count in
  either component: a recording handed over by a monitor that is already listening is
  answered at the limit.
\<close>

theorem text_submit_at_the_limit_counterexample:
  "conversationCount ((sampleState Continuous)\<lparr>conversationCount := 8\<rparr>) = 8 \<and>
   messages ((sampleState Continuous)\<lparr>conversationCount := 8\<rparr>) = [] \<and>
   map content (messages (snd (handleTextSubmit AppTsx sampleEnv ''hi''
      ((sampleState Continuous)\<lparr>conversationCount := 8\<rparr>)))) = [''hi'', ''Hi there''] \<and>
   conversationCount (snd (handleTextSubmit AppTsx sampleEnv ''hi''
      ((sampleState Continuous)\<lparr>conversationCount := 8\<rparr>))) = 9 \<and>
   maxFreeConversations (sampleEnv\<lparr>conversationCountProp := 8\<rparr>) \<le>
     conversationCountProp (sampleEnv\<lparr>conversationCountProp := 8\<rparr>) \<and>
   map content (messages (snd (processRecording ChatInterface
      (sampleEnv\<lparr>conversationCountProp := 8\<rparr>) (sampleState True)))) =
     [''hello there'', ''Hi there''] \<and>
   calls (snd (processRecording ChatInterface
      (sampleEnv\<lparr>conversationCountProp := 8\<rparr>) (sampleState True))) =
     [TranscribeAudio (replicate 600 0) ''en'' ''whisper-1'',
      StreamText [(User, ''hello there'')] ''gpt-4o-mini'' 300,
      GenerateSpeech ''Hi there'' ''nova'', PlayAudio ''blob:reply'', OnConversationComplete]"
  by (simp add: sampleState_def sampleEnv_def handleTextSubmit_def
      handleTextSubmitBody_def processRecording_def processRecordingBody_def transcribe_def
      transcriptText_def respond_def minBlobSize_def
      hasReachedLimit_def trim_def isWhiteSpace_def finallyClear_def
      beginTurn_def userMessage_def assistantMessage_def conversationHistory_def
      requestedModel_def determineOptimalModel_def toLowerCase_def toLowerUnit_def
      onChunk_def speak_def playAudio_def markComplete_def updateMessage_def invoke_def
      appendMessage_def setIsProcessing_def setIsPlaying_def Let_def)

text \<open>
  C7, as amended. Once the conversation count has reached the maximum, the entry
  points that test it refuse, each returning without changing the message log, the
  voice state or anything else and without making a call: in the chat component
  \<open>startContinuousListening\<close> (it does not ask for the microphone) and
  \<open>handleTextSubmit\<close>, whatever the text; in \<open>App.tsx\<close> \<open>handleStartChat\<close>, at a count of
  8 or more. \<open>handleTextSubmit\<close> of \<open>App.tsx\<close> does not test the count: for a signed-in
  user and a text that is not blank it appends the two messages of a turn, one of the
  user and one of the assistant, and calls the generation service at every count.
\<close>

theorem entry_points_refuse_at_the_limit:
  "(maxFreeConversations e \<le> conversationCountProp e \<longrightarrow>
      startContinuousListening e s = s \<and>
      handleTextSubmit ChatInterface e text s = (Returned, s)) \<and>
   (8 \<le> conversationCount s \<longrightarrow> handleStartChat s = s) \<and>
   (user e \<and> trim text \<noteq> [] \<longrightarrow>
      map msg_type (messages (snd (handleTextSubmit AppTsx e text (s\<lparr>conversationCount := n\<rparr>)))) =
        map msg_type (messages s) @ [User, Assistant] \<and>
      prefix (calls s @ [StreamText (conversationHistory e text) (requestedModel e text) 300])
        (calls (snd (handleTextSubmit AppTsx e text (s\<lparr>conversationCount := n\<rparr>)))))"
proof -
  have "map msg_type (messages (snd (handleTextSubmit AppTsx e text (s\<lparr>conversationCount := n\<rparr>)))) =
        map msg_type (messages s) @ [User, Assistant] \<and>
      prefix (calls s @ [StreamText (conversationHistory e text) (requestedModel e text) 300])
        (calls (snd (handleTextSubmit AppTsx e text (s\<lparr>conversationCount := n\<rparr>))))"
    if "user e" "trim text \<noteq> []"
    using handleTextSubmit_runs(1,2) [of "text" AppTsx e "s\<lparr>conversationCount := n\<rparr>"] that
    by simp
  then show ?thesis
    by (simp add: startContinuousListening_def handleTextSubmit_def hasReachedLimit_def
        handleStartChat_def)
qed

theorem entry_points_refuse_at_the_limit_witness:
  "maxFreeConversations (sampleEnv\<lparr>conversationCountProp := 8\<rparr>) \<le>
     conversationCountProp (sampleEnv\<lparr>conversationCountProp := 8\<rparr>) \<and>
   startContinuousListening (sampleEnv\<lparr>conversationCountProp := 8\<rparr>) (sampleState False) =
     sampleState False \<and>
   handleTextSubmit ChatInterface (sampleEnv\<lparr>conversationCountProp := 8\<rparr>) ''hi'' (sampleState False) =
     (Returned, sampleState False) \<and>
   8 \<le> conversationCount ((sampleState Continuous)\<lparr>conversationCount := 8\<rparr>) \<and>
   handleStartChat ((sampleState Continuous)\<lparr>conversationCount := 8\<rparr>) =
     (sampleState Continuous)\<lparr>conversationCount := 8\<rparr> \<and>
   user sampleEnv \<and> trim ''hi'' \<noteq> [] \<and>
   map msg_type (messages (snd (handleTextSubmit AppTsx sampleEnv ''hi''
      ((sampleState Continuous)\<lparr>conversationCount := 8\<rparr>)))) =
     map msg_type (messages (sampleState Continuous)) @ [User, Assistant]"
proof -
  have a: "maxFreeConversations (sampleEnv\<lparr>conversationCountProp := 8\<rparr>) \<le>
     conversationCountProp (sampleEnv\<lparr>conversationCountProp := 8\<rparr>)"
    and b: "8 \<le> conversationCount ((sampleState Continuous)\<lparr>conversationCount := 8\<rparr>)"
    and c: "user sampleEnv" and d: "trim ''hi'' \<noteq> []"
    by (simp_all add: sampleEnv_def trim_def isWhiteSpace_def)
  from entry_points_refuse_at_the_limit
         [of "sampleEnv\<lparr>conversationCountProp := 8\<rparr>" "sampleState False" "''hi''"]
    entry_points_refuse_at_the_limit
         [of sampleEnv "(sampleState Continuous)\<lparr>conversationCount := 8\<rparr>" "''hi''"]
    entry_points_refuse_at_the_limit
         [of sampleEnv "sampleState Continuous" "''hi''" 8]
    a b c d
  show ?thesis by simp
qed

section \<open>Properties of the voice-activity monitor\<close>

subsection \<open>Runs, one event at a time\<close>

lemma run_snoc: "run s (es @ [e]) = fst (step (run s es) e)"
  by (simp add: run_def)

lemma lastSpeechAt_snoc: "lastSpeechAt (es @ [e]) = lastSpeechStep (lastSpeechAt es) e"
  by (simp add: lastSpeechAt_def)

lemma episodeStart_snoc: "episodeStart (es @ [e]) = episodeStep (episodeStart es) e"
  by (simp add: episodeStart_def)

lemma recording_fold_fst: "fst (foldl recordingStep (s, r) es) = run s es"
proof (induction es rule: rev_induct)
  case Nil
  show ?case by (simp add: run_def)
next
  case (snoc e es)
  obtain s' r' where p: "foldl recordingStep (s, r) es = (s', r')"
    by (cases "foldl recordingStep (s, r) es")
  with snoc have "s' = run s es" by simp
  with p show ?case by (cases e) (simp_all add: run_snoc)
qed

lemma recordingSince_snoc:
  "recordingSince (es @ [e]) = snd (recordingStep (run initialVad es, recordingSince es) e)"
proof -
  obtain s' r' where p: "foldl recordingStep (initialVad, None) es = (s', r')"
    by (cases "foldl recordingStep (initialVad, None) es")
  have "s' = run initialVad es"
    using recording_fold_fst [of initialVad None es] p by simp
  with p show ?thesis by (simp add: recordingSince_def)
qed

lemmas monitor_defs = monitorVoiceActivity_def startAutomaticRecording_def stopRecording_def
  SPEECH_THRESHOLD_def SPEECH_START_DURATION_def SPEECH_END_DURATION_def MIN_RECORDING_TIME_def

subsection \<open>What the monitor's variables hold\<close>

text \<open>
  While the detection flag is set a tick above the threshold has been seen, and
  \<open>lastSpeechTime\<close> is the time of the latest such tick.
\<close>

lemma speech_invariant:
  "(voiceDetectionRef (run initialVad es) \<longrightarrow> lastSpeechAt es \<noteq> None) \<and>
   (\<forall>\<tau>. lastSpeechAt es = Some \<tau> \<longrightarrow> lastSpeechTime (run initialVad es) = \<tau>)"
proof (induction es rule: rev_induct)
  case Nil
  show ?case by (simp add: run_def lastSpeechAt_def initialVad_def)
next
  case (snoc e es)
  then show ?case
    by (cases e) (auto simp: run_snoc lastSpeechAt_snoc monitor_defs Let_def split: recorder.splits)
qed

text \<open>
  While the monitor is not recording, the detection flag is set exactly when the events
  end in an unbroken run of ticks above the threshold, and \<open>speechStartTime\<close> is the time
  of the first tick of that run.
\<close>

lemma episode_invariant:
  "\<not> isCurrentlyRecording (run initialVad es) \<Longrightarrow>
   (voiceDetectionRef (run initialVad es) \<longleftrightarrow> episodeStart es \<noteq> None) \<and>
   (\<forall>\<tau>. episodeStart es = Some \<tau> \<longrightarrow> speechStartTime (run initialVad es) = \<tau>)"
proof (induction es rule: rev_induct)
  case Nil
  show ?case by (simp add: run_def episodeStart_def initialVad_def)
next
  case (snoc e es)
  then show ?case
    by (cases e)
      (auto simp: run_snoc episodeStart_snoc monitor_defs Let_def
         split: recorder.splits if_splits option.splits)
qed

text \<open>
  A recorder is active exactly when a recording is in progress, and then
  \<open>speechStartTimeRef\<close> is the clock reading taken when that recording was started.
\<close>

lemma recording_invariant:
  "(\<forall>\<tau>. recordingSince es = Some \<tau> \<longrightarrow>
      speechStartTimeRef (run initialVad es) = \<tau> \<and> isCurrentlyRecording (run initialVad es) \<and>
      recorderActive (run initialVad es)) \<and>
   (recorderActive (run initialVad es) \<longrightarrow> recordingSince es \<noteq> None)"
proof (induction es rule: rev_induct)
  case Nil
  show ?case by (simp add: run_def recordingSince_def initialVad_def)
next
  case (snoc e es)
  then show ?case
    by (cases e)
      (auto simp: run_snoc recordingSince_snoc monitor_defs recorderStarts_def Let_def
         split: recorder.splits if_splits option.splits)
qed

lemma alternate_from: "startsAlternate (isCurrentlyRecording s) (actions s es)"
proof (induction es arbitrary: s)
  case Nil
  show ?case by simp
next
  case (Cons e es)
  show ?case
    using Cons [of "fst (step s e)"]
    by (cases e) (auto simp: monitor_defs Let_def split: recorder.splits if_splits)
qed

lemma sample_run:
  "run initialVad sampleEvents =
     \<lparr>speechStartTime = 0, lastSpeechTime = 700, isCurrentlyRecording = True,
      voiceDetectionRef = True, speechStartTimeRef = 250, recorderActive = True\<rparr>"
  by (simp add: run_def sampleEvents_def tickAt_def initialVad_def monitor_defs Let_def)

subsection \<open>When the monitor stops a recording\<close>

text \<open>
  C1. In every listening session, after any sequence of ticks (and timer stops), a tick
  on which the monitor calls \<open>stopRecording\<close> is a silent one; the silence it measures,
  from the most recent tick above the threshold, is more than 1200 ms; and a recording
  in progress, which the call ends and hands to transcription, was started more than
  600 ms before. So a tick whose recording is not yet more than 600 ms old never calls
  \<open>stopRecording\<close>, whatever the silence.
\<close>

theorem monitor_stops_only_after_silence_and_minimum:
  assumes "snd (monitorVoiceActivity (run initialVad es) t) = Some StopRecording"
  shows "\<not> rms t > SPEECH_THRESHOLD \<and>
         (\<exists>\<tau>. lastSpeechAt es = Some \<tau> \<and> now t - \<tau> > 1200) \<and>
         (\<forall>\<tau>. recordingSince es = Some \<tau> \<longrightarrow> now t - \<tau> > 600)"
proof -
  let ?s = "run initialVad es"
  from assms have silent: "\<not> rms t > SPEECH_THRESHOLD"
    and flags: "voiceDetectionRef ?s" "isCurrentlyRecording ?s"
    and silence: "now t - lastSpeechTime ?s > 1200"
    and duration: "now t - speechStartTimeRef ?s > 600"
    by (auto simp: monitor_defs Let_def split: if_splits)
  from flags(1) speech_invariant [of es] obtain \<tau> where "lastSpeechAt es = Some \<tau>"
    and "lastSpeechTime ?s = \<tau>"
    by auto
  with silence have "\<exists>\<tau>. lastSpeechAt es = Some \<tau> \<and> now t - \<tau> > 1200"
    by simp
  moreover from duration recording_invariant [of es]
  have "\<forall>\<tau>. recordingSince es = Some \<tau> \<longrightarrow> now t - \<tau> > 600"
    by auto
  ultimately show ?thesis using silent by simp
qed

theorem monitor_stops_only_after_silence_and_minimum_witness:
  "snd (monitorVoiceActivity (run initialVad sampleEvents) (tickAt 1950 3)) = Some StopRecording \<and>
   \<not> rms (tickAt 1950 3) > SPEECH_THRESHOLD \<and>
   lastSpeechAt sampleEvents = Some 700 \<and> now (tickAt 1950 3) - 700 > 1200 \<and>
   recordingSince sampleEvents = Some 250 \<and> now (tickAt 1950 3) - 250 > 600"
proof -
  have stop: "snd (monitorVoiceActivity (run initialVad sampleEvents) (tickAt 1950 3)) =
      Some StopRecording"
    by (simp add: sample_run) (simp add: tickAt_def monitor_defs Let_def)
  have "lastSpeechAt sampleEvents = Some 700"
    by (simp add: lastSpeechAt_def sampleEvents_def tickAt_def SPEECH_THRESHOLD_def)
  moreover have "recordingSince sampleEvents = Some 250"
    by (simp add: recordingSince_def sampleEvents_def tickAt_def initialVad_def monitor_defs
        recorderStarts_def Let_def)
  ultimately show ?thesis
    using stop monitor_stops_only_after_silence_and_minimum [OF stop] by simp
qed

subsection \<open>When the monitor starts a recording\<close>

text \<open>
  C2. In every listening session the monitor's calls of \<open>startAutomaticRecording\<close> and
  of \<open>stopRecording\<close> take turns, beginning with a start: after a start there is no
  second start before the monitor has stopped the recording, so at most one start lies
  between one stop and the next (a stop by the 15 second timer leaves the monitor's
  flag set, and no start follows it before the monitor's own stop). And a tick on which \<open>startAutomaticRecording\<close> is called
  is above the threshold and ends an unbroken run of ticks above the threshold whose
  first tick is more than 200 ms older.
\<close>

theorem starts_alternate_and_follow_debounce:
  "startsAlternate False (actions initialVad es) \<and>
   (snd (monitorVoiceActivity (run initialVad pre) t) = Some StartAutomaticRecording \<longrightarrow>
      rms t > SPEECH_THRESHOLD \<and> (\<exists>\<tau>. episodeStart pre = Some \<tau> \<and> now t - \<tau> > 200))"
proof
  show "startsAlternate False (actions initialVad es)"
    using alternate_from [of initialVad es] by (simp add: initialVad_def)
next
  let ?s = "run initialVad pre"
  show "snd (monitorVoiceActivity ?s t) = Some StartAutomaticRecording \<longrightarrow>
      rms t > SPEECH_THRESHOLD \<and> (\<exists>\<tau>. episodeStart pre = Some \<tau> \<and> now t - \<tau> > 200)"
  proof
    assume start: "snd (monitorVoiceActivity ?s t) = Some StartAutomaticRecording"
    then have loud: "rms t > SPEECH_THRESHOLD"
      and idle: "\<not> isCurrentlyRecording ?s"
      and detecting: "voiceDetectionRef ?s"
      and held: "now t - speechStartTime ?s > 200"
      by (auto simp: monitor_defs Let_def split: if_splits)
    from episode_invariant [OF idle] detecting obtain \<tau> where "episodeStart pre = Some \<tau>"
      and "speechStartTime ?s = \<tau>"
      by auto
    with held loud
    show "rms t > SPEECH_THRESHOLD \<and> (\<exists>\<tau>. episodeStart pre = Some \<tau> \<and> now t - \<tau> > 200)"
      by simp
  qed
qed

theorem starts_alternate_and_follow_debounce_witness:
  "startsAlternate False
     (actions initialVad (sampleEvents @ [Tick (tickAt 1950 3), Tick (tickAt 2000 30)])) \<and>
   actions initialVad (sampleEvents @ [Tick (tickAt 1950 3), Tick (tickAt 2000 30)]) =
     [StartAutomaticRecording, StopRecording] \<and>
   snd (monitorVoiceActivity (run initialVad [Tick (tickAt 0 20)]) (tickAt 250 20)) =
     Some StartAutomaticRecording \<and>
   rms (tickAt 250 20) > SPEECH_THRESHOLD \<and>
   (\<exists>\<tau>. episodeStart [Tick (tickAt 0 20)] = Some \<tau> \<and> now (tickAt 250 20) - \<tau> > 200) \<and>
   episodeStart [Tick (tickAt 0 20)] = Some 0"
proof -
  have acts: "actions initialVad (sampleEvents @ [Tick (tickAt 1950 3), Tick (tickAt 2000 30)]) =
     [StartAutomaticRecording, StopRecording]"
    by (simp add: sampleEvents_def tickAt_def initialVad_def monitor_defs Let_def)
  have start: "snd (monitorVoiceActivity (run initialVad [Tick (tickAt 0 20)]) (tickAt 250 20)) =
      Some StartAutomaticRecording"
    by (simp add: run_def tickAt_def initialVad_def monitor_defs Let_def)
  have ep: "episodeStart [Tick (tickAt 0 20)] = Some 0"
    by (simp add: episodeStart_def tickAt_def SPEECH_THRESHOLD_def)
  show ?thesis
    using acts start ep
      starts_alternate_and_follow_debounce
        [of "sampleEvents @ [Tick (tickAt 1950 3), Tick (tickAt 2000 30)]"
            "[Tick (tickAt 0 20)]" "tickAt 250 20"]
    by simp
qed

end
